theory Spec2Isabelle
  imports Complex_Main
begin

section \<open>Numbers, failures and matrices\<close>

text \<open>
  The two headers verified here are \<^verbatim>\<open>shark/Models/MeanModel.h\<close> (the ensemble
  aggregator) and \<^verbatim>\<open>shark/ObjectiveFunctions/ErrorFunction.h\<close> (the objective function
  engine).

  A C++ \<^verbatim>\<open>double\<close> is idealised as a \<^typ>\<open>real\<close>: sums, products and quotients are
  exact, so rounding, overflow to an infinity and NaN are outside the model of the
  ensemble; what rounding does to the running weight sum is looked at on its own. The
  only place where a finite computation of the source leaves the reals is the division
  by a zero weight sum; the model reports it as the outcome \<open>NotFinite\<close> instead of
  using the convention \<open>x / 0 = 0\<close> of HOL. A \<^verbatim>\<open>std::size_t\<close> or \<^verbatim>\<open>unsigned int\<close> that
  is only compared and used as an index is a \<^typ>\<open>nat\<close>.
\<close>

text \<open>
  Modelled from the spec: the macros \<^verbatim>\<open>SHARK_RUNTIME_CHECK\<close> and \<^verbatim>\<open>SIZE_CHECK\<close>, which
  the headers use and do not define. Section 7 of the specification has a violated
  contract abort the operation and surface to the caller; so a failed
  \<^verbatim>\<open>SHARK_RUNTIME_CHECK\<close> ends the call with its message (\<open>RuntimeCheck\<close>) and a failed
  \<^verbatim>\<open>SIZE_CHECK\<close> ends it with \<open>SizeCheck\<close>.

  Where the headers make no check of their own, the sources do not say what happens:
  an index outside the range of a vector or matrix, and the matrix operator \<^verbatim>\<open>+=\<close> on
  operands of different shapes. The outcome of such a call is \<open>Undefined\<close>: no result
  and no report is claimed for it.
\<close>

datatype failure = RuntimeCheck string | SizeCheck | NotFinite | Undefined

definition and_then :: "failure + 'a \<Rightarrow> ('a \<Rightarrow> failure + 'b) \<Rightarrow> failure + 'b" where
  "and_then r f = (case r of Inl x \<Rightarrow> Inl x | Inr v \<Rightarrow> f v)"

text \<open>
  A counting loop \<^verbatim>\<open>for(i = 0; i != n; ++i) body\<close> is \<open>for_each [0..<n] body\<close>: the body
  is run on the indices in order and the first failure leaves the loop.
\<close>

fun for_each :: "nat list \<Rightarrow> (nat \<Rightarrow> 's \<Rightarrow> failure + 's) \<Rightarrow> 's \<Rightarrow> failure + 's" where
  "for_each [] body s = Inr s"
| "for_each (i # is) body s = and_then (body i s) (for_each is body)"

text \<open>Element access \<^verbatim>\<open>v[i]\<close>, \<^verbatim>\<open>v(i)\<close> of a vector; outside the range it is \<open>Undefined\<close>.\<close>

definition elem_at :: "'a list \<Rightarrow> nat \<Rightarrow> failure + 'a" where
  "elem_at v i = (if i < length v then Inr (v ! i) else Inl Undefined)"

text \<open>
  A \<^verbatim>\<open>RealMatrix\<close>: the number of columns and the rows. The number of rows is the
  length of \<open>rows\<close>; every row of a matrix object has \<open>size2\<close> entries (\<open>wf_matrix\<close>).
  The type and its operations belong to the linear algebra library, which is not among
  the sources; \<open>resize\<close>, \<open>clear\<close>, \<open>scale\<close>, \<open>div_assign\<close> and \<open>add_at\<close> have their
  usual entry-wise meaning.
\<close>

record RealMatrix =
  size2 :: nat
  rows :: "real list list"

definition size1 :: "RealMatrix \<Rightarrow> nat" where
  "size1 M = length (rows M)"

definition wf_matrix :: "RealMatrix \<Rightarrow> bool" where
  "wf_matrix M = list_all (\<lambda>r. length r = size2 M) (rows M)"

definition entry :: "RealMatrix \<Rightarrow> nat \<Rightarrow> nat \<Rightarrow> real" where
  "entry M p c = rows M ! p ! c"

text \<open>\<^verbatim>\<open>outputs.resize(n, d)\<close>: the new shape; old entries are kept where they fit.\<close>

definition resize :: "RealMatrix \<Rightarrow> nat \<Rightarrow> nat \<Rightarrow> RealMatrix" where
  "resize M n d =
     \<lparr>size2 = d,
      rows = map (\<lambda>p. map (\<lambda>c. if p < length (rows M) \<and> c < length (rows M ! p)
                                then rows M ! p ! c else 0) [0..<d]) [0..<n]\<rparr>"

text \<open>\<^verbatim>\<open>outputs.clear()\<close>: every entry becomes zero, the shape stays.\<close>

definition clear :: "RealMatrix \<Rightarrow> RealMatrix" where
  "clear M = M\<lparr>rows := map (map (\<lambda>x. 0)) (rows M)\<rparr>"

text \<open>The expression \<^verbatim>\<open>w * M\<close>.\<close>

definition scale :: "real \<Rightarrow> RealMatrix \<Rightarrow> RealMatrix" where
  "scale w M = M\<lparr>rows := map (map (\<lambda>x. w * x)) (rows M)\<rparr>"

text \<open>
  The matrix operator behind \<^verbatim>\<open>noalias(outputs) += E\<close>. On operands of equal shape the
  entries are added. The operator belongs to the library and \<^verbatim>\<open>MeanModel.h\<close> calls it
  without a check of the shapes, so on different shapes the outcome is \<open>Undefined\<close>.
\<close>

definition plus_assign :: "RealMatrix \<Rightarrow> RealMatrix \<Rightarrow> failure + RealMatrix" where
  "plus_assign A E =
     (if size1 A = size1 E \<and> size2 A = size2 E
      then Inr (A\<lparr>rows := map2 (map2 (+)) (rows A) (rows E)\<rparr>)
      else Inl Undefined)"

text \<open>
  \<^verbatim>\<open>outputs /= s\<close>. Dividing an entry by zero gives an infinity or NaN, which is
  \<open>NotFinite\<close> here; a matrix without entries is left as it is.
\<close>

definition div_assign :: "RealMatrix \<Rightarrow> real \<Rightarrow> failure + RealMatrix" where
  "div_assign A s =
     (if s = 0 \<and> concat (rows A) \<noteq> [] then Inl NotFinite
      else Inr (A\<lparr>rows := map (map (\<lambda>x. x / s)) (rows A)\<rparr>))"

text \<open>\<^verbatim>\<open>outputs(p, c) += w\<close>; outside the matrix the element access is \<open>Undefined\<close>.\<close>

definition add_at :: "RealMatrix \<Rightarrow> nat \<Rightarrow> nat \<Rightarrow> real \<Rightarrow> failure + RealMatrix" where
  "add_at A p c w =
     (if p < size1 A \<and> c < size2 A \<and> c < length (rows A ! p)
      then Inr (A\<lparr>rows := (rows A)[p := (rows A ! p)[c := rows A ! p ! c + w]]\<rparr>)
      else Inl Undefined)"

text \<open>
  \<^verbatim>\<open>clear()\<close> of a \<^verbatim>\<open>RealVector\<close>. It is the same library call as \<^verbatim>\<open>outputs.clear()\<close> in
  \<^verbatim>\<open>eval\<close>, which must keep the shape it follows (the entries are written right after
  it): every entry becomes zero and the size stays.
\<close>

definition clear_vector :: "real list \<Rightarrow> real list" where
  "clear_vector v = map (\<lambda>x. 0) v"

section \<open>The ensemble: \<^verbatim>\<open>MeanModel\<close>\<close>

text \<open>
  A \<^verbatim>\<open>Shape\<close> is the list of its extents; \<^verbatim>\<open>Shape()\<close> is the empty one. The template
  parameter \<^verbatim>\<open>ModelType\<close> is a sub-model: what it does with a batch of inputs (a list,
  one input per row, so \<^verbatim>\<open>patterns.size1()\<close> is the length) and its two shapes. The
  output type \<open>'o\<close> is \<^typ>\<open>RealMatrix\<close> for sub-models with \<^verbatim>\<open>OutputType = RealVector\<close> and
  \<^typ>\<open>nat list\<close> (one class index per input) for \<^verbatim>\<open>OutputType = unsigned int\<close>.
\<close>

type_synonym Shape = "nat list"

record ('i, 'o) ModelType =
  model_eval :: "'i list \<Rightarrow> 'o"
  model_inputShape :: Shape
  model_outputShape :: Shape

record ('i, 'o) MeanModel =
  m_models :: "('i, 'o) ModelType list"
  m_weight :: "real list"
  m_weightSum :: real
  m_outputDim :: nat

text \<open>
  The constructor initialises \<^verbatim>\<open>m_weightSum\<close> only; the two containers start empty and
  \<^verbatim>\<open>m_outputDim\<close> is left indeterminate, which is the parameter \<open>d\<close>.
\<close>

definition MeanModel :: "nat \<Rightarrow> ('i, 'o) MeanModel" where
  "MeanModel d = \<lparr>m_models = [], m_weight = [], m_weightSum = 0, m_outputDim = d\<rparr>"

definition inputShape :: "('i, 'o) MeanModel \<Rightarrow> Shape" where
  "inputShape e = (if m_models e = [] then [] else model_inputShape (hd (m_models e)))"

definition outputShape :: "('i, 'o) MeanModel \<Rightarrow> Shape" where
  "outputShape e = (if m_models e = [] then [] else model_outputShape (hd (m_models e)))"

definition outputSize :: "('i, 'o) MeanModel \<Rightarrow> nat" where
  "outputSize e = m_outputDim e"

definition numberOfModels :: "('i, 'o) MeanModel \<Rightarrow> nat" where
  "numberOfModels e = length (m_models e)"

definition getModel :: "('i, 'o) MeanModel \<Rightarrow> nat \<Rightarrow> failure + ('i, 'o) ModelType" where
  "getModel e index = elem_at (m_models e) index"

definition weight :: "('i, 'o) MeanModel \<Rightarrow> nat \<Rightarrow> failure + real" where
  "weight e i = elem_at (m_weight e) i"

text \<open>
  The operations that change the ensemble return what they report (\<open>None\<close> when they
  return normally) and the ensemble afterwards. \<^verbatim>\<open>clearModels\<close> empties the
  \<^verbatim>\<open>std::vector\<close> of the models; the weights are a \<^verbatim>\<open>RealVector\<close>, whose \<^verbatim>\<open>clear()\<close>
  leaves as many entries as before, all zero.
\<close>

definition clearModels :: "('i, 'o) MeanModel \<Rightarrow> failure option \<times> ('i, 'o) MeanModel" where
  "clearModels e =
     (None, e\<lparr>m_models := [], m_weight := clear_vector (m_weight e), m_weightSum := 0\<rparr>)"

definition addModel ::
  "('i, 'o) ModelType \<Rightarrow> real \<Rightarrow> ('i, 'o) MeanModel \<Rightarrow> failure option \<times> ('i, 'o) MeanModel" where
  "addModel model w e =
     (if w > 0
      then (None, e\<lparr>m_models := m_models e @ [model],
                     m_weight := m_weight e @ [w],
                     m_weightSum := m_weightSum e + w\<rparr>)
      else (Some (RuntimeCheck ''Weights must be positive''), e))"

text \<open>
  \<^verbatim>\<open>setWeight\<close> reads and writes \<^verbatim>\<open>m_weight[i]\<close> without a check. With an index outside
  the vector nothing is known of the ensemble afterwards, so the call has no ensemble to
  return then.
\<close>

definition setWeight ::
  "nat \<Rightarrow> real \<Rightarrow> ('i, 'o) MeanModel \<Rightarrow> failure + ('i, 'o) MeanModel" where
  "setWeight i newWeight e =
     and_then (elem_at (m_weight e) i)
       (\<lambda>old. Inr (e\<lparr>m_weightSum := m_weightSum e + (newWeight - old),
                       m_weight := (m_weight e)[i := newWeight]\<rparr>))"

definition setOutputSize ::
  "nat \<Rightarrow> ('i, 'o) MeanModel \<Rightarrow> failure option \<times> ('i, 'o) MeanModel" where
  "setOutputSize d e = (None, e\<lparr>m_outputDim := d\<rparr>)"

subsection \<open>Evaluation\<close>

text \<open>The branch for sub-models with continuous output, \<^verbatim>\<open>doEval(..., tag<RealVector>)\<close>.\<close>

definition doEval_RealVector ::
  "('i, RealMatrix) MeanModel \<Rightarrow> 'i list \<Rightarrow> RealMatrix \<Rightarrow> failure + RealMatrix" where
  "doEval_RealVector e patterns outputs =
     and_then
       (for_each [0..<length (m_models e)]
          (\<lambda>i out. and_then (elem_at (m_weight e) i)
             (\<lambda>w. plus_assign out (scale w (model_eval (m_models e ! i) patterns))))
          outputs)
       (\<lambda>out. div_assign out (m_weightSum e))"

text \<open>
  The branch for sub-models that answer with class indices,
  \<^verbatim>\<open>doEval(..., tag<unsigned int>)\<close>. The inner loop visits the inputs of the batch.
\<close>

definition vote ::
  "('i, nat list) MeanModel \<Rightarrow> nat \<Rightarrow> nat list \<Rightarrow> nat \<Rightarrow> RealMatrix \<Rightarrow> failure + RealMatrix" where
  "vote e i responses p out =
     and_then (elem_at responses p)
       (\<lambda>c. if c < m_outputDim e
             then and_then (elem_at (m_weight e) i) (\<lambda>w. add_at out p c w)
             else Inl SizeCheck)"

definition doEval_uint ::
  "('i, nat list) MeanModel \<Rightarrow> 'i list \<Rightarrow> RealMatrix \<Rightarrow> failure + RealMatrix" where
  "doEval_uint e patterns outputs =
     and_then
       (for_each [0..<length (m_models e)]
          (\<lambda>i out. for_each [0..<length patterns]
                      (vote e i (model_eval (m_models e ! i) patterns)) out)
          outputs)
       (\<lambda>out. div_assign out (m_weightSum e))"

text \<open>
  \<^verbatim>\<open>eval(patterns, outputs)\<close>, once per output kind of the sub-models. The argument
  \<open>outputs\<close> is the matrix the caller passes by reference; the result is its content
  on return.
\<close>

definition eval_RealVector ::
  "('i, RealMatrix) MeanModel \<Rightarrow> 'i list \<Rightarrow> RealMatrix \<Rightarrow> failure + RealMatrix" where
  "eval_RealVector e patterns outputs =
     doEval_RealVector e patterns (clear (resize outputs (length patterns) (m_outputDim e)))"

definition eval_uint ::
  "('i, nat list) MeanModel \<Rightarrow> 'i list \<Rightarrow> RealMatrix \<Rightarrow> failure + RealMatrix" where
  "eval_uint e patterns outputs =
     doEval_uint e patterns (clear (resize outputs (length patterns) (m_outputDim e)))"

text \<open>\<^verbatim>\<open>eval(patterns, outputs, state)\<close>: the result and the state object afterwards.\<close>

definition eval_State_RealVector ::
  "('i, RealMatrix) MeanModel \<Rightarrow> 'i list \<Rightarrow> RealMatrix \<Rightarrow> 'st \<Rightarrow> (failure + RealMatrix) \<times> 'st" where
  "eval_State_RealVector e patterns outputs state = (eval_RealVector e patterns outputs, state)"

definition eval_State_uint ::
  "('i, nat list) MeanModel \<Rightarrow> 'i list \<Rightarrow> RealMatrix \<Rightarrow> 'st \<Rightarrow> (failure + RealMatrix) \<times> 'st" where
  "eval_State_uint e patterns outputs state = (eval_uint e patterns outputs, state)"

subsection \<open>Sequences of operations\<close>

text \<open>
  A caller that adds models, sets weights and clears the ensemble, one call after the
  other. When \<^verbatim>\<open>addModel\<close> reports its failed check it has thrown, and the caller goes
  on with the ensemble as the call left it. After a \<^verbatim>\<open>setWeight\<close> outside the range
  nothing is defined any more, and the sequence ends there without an ensemble.
\<close>

datatype ('i, 'o) operation =
  AddModel "('i, 'o) ModelType" real
| SetWeight nat real
| ClearModels

fun perform ::
  "('i, 'o) operation \<Rightarrow> ('i, 'o) MeanModel \<Rightarrow> failure + ('i, 'o) MeanModel" where
  "perform (AddModel model w) e = Inr (snd (addModel model w e))"
| "perform (SetWeight i newWeight) e = setWeight i newWeight e"
| "perform ClearModels e = Inr (snd (clearModels e))"

fun run ::
  "('i, 'o) operation list \<Rightarrow> ('i, 'o) MeanModel \<Rightarrow> failure + ('i, 'o) MeanModel" where
  "run [] e = Inr e"
| "run (x # xs) e = and_then (perform x e) (run xs)"

text \<open>
  The weights of the current models: what \<^verbatim>\<open>weight(i)\<close> reads for the indices below
  \<^verbatim>\<open>numberOfModels()\<close>.
\<close>

definition current_weights :: "('i, 'o) MeanModel \<Rightarrow> real list" where
  "current_weights e = take (numberOfModels e) (m_weight e)"

text \<open>The bookkeeping of the class: one weight per model, and the sum of the weights.\<close>

definition consistent :: "('i, 'o) MeanModel \<Rightarrow> bool" where
  "consistent e = (length (m_weight e) = length (m_models e)
                   \<and> m_weightSum e = sum_list (m_weight e))"

subsection \<open>The running sum in double arithmetic\<close>

text \<open>
  The ensemble above adds and subtracts exactly. A \<^verbatim>\<open>double\<close> operation rounds its exact
  result to the nearest number with a significand of 53 bits, ties to the even
  significand; \<open>round_double\<close> is that rounding for results in the normal range
  (neither overflow nor subnormal numbers). The two updates of \<^verbatim>\<open>m_weightSum\<close>, in
  \<^verbatim>\<open>addModel\<close> and in \<^verbatim>\<open>setWeight\<close>, are written once more with it.
\<close>

definition round_half_even :: "real \<Rightarrow> int" where
  "round_half_even q =
     (let f = \<lfloor>q\<rfloor>
      in if q - of_int f < 1 / 2 then f
         else if 1 / 2 < q - of_int f then f + 1
         else if even f then f else f + 1)"

definition round_double :: "real \<Rightarrow> real" where
  "round_double x =
     (if x = 0 then 0
      else let u = 2 powr (of_int \<lfloor>log 2 \<bar>x\<bar>\<rfloor> - 52)
           in of_int (round_half_even (x / u)) * u)"

text \<open>\<^verbatim>\<open>m_weightSum += weight\<close>.\<close>

definition addModel_weightSum_double :: "real \<Rightarrow> real \<Rightarrow> real" where
  "addModel_weightSum_double weightSum w = round_double (weightSum + w)"

text \<open>\<^verbatim>\<open>m_weightSum += newWeight - m_weight[i]\<close>.\<close>

definition setWeight_weightSum_double :: "real \<Rightarrow> real \<Rightarrow> real \<Rightarrow> real" where
  "setWeight_weightSum_double weightSum newWeight old =
     round_double (weightSum + round_double (newWeight - old))"

subsection \<open>What the specification says \<^verbatim>\<open>eval\<close> computes\<close>

text \<open>The matrix with \<open>n\<close> rows and \<open>d\<close> columns whose entry \<open>(p, c)\<close> is \<open>f p c\<close>.\<close>

definition tabulate :: "nat \<Rightarrow> nat \<Rightarrow> (nat \<Rightarrow> nat \<Rightarrow> real) \<Rightarrow> RealMatrix" where
  "tabulate n d f = \<lparr>size2 = d, rows = map (\<lambda>p. map (f p) [0..<d]) [0..<n]\<rparr>"

text \<open>A matrix object with \<open>n\<close> rows and \<open>d\<close> columns.\<close>

definition conforms :: "nat \<Rightarrow> nat \<Rightarrow> RealMatrix \<Rightarrow> bool" where
  "conforms n d M = (size1 M = n \<and> size2 M = d \<and> wf_matrix M)"

text \<open>
  The weighted arithmetic mean of the specification,
  \<^verbatim>\<open>sum(weight[i] * model[i](inputBatch)) / weightSum\<close>, entry by entry.
\<close>

definition weighted_mean :: "('i, RealMatrix) MeanModel \<Rightarrow> 'i list \<Rightarrow> RealMatrix" where
  "weighted_mean e X =
     tabulate (length X) (m_outputDim e)
       (\<lambda>p c. (\<Sum>i\<leftarrow>[0..<numberOfModels e].
                  m_weight e ! i * entry (model_eval (m_models e ! i) X) p c)
               / m_weightSum e)"

text \<open>
  The weighted vote of the specification: in the row of input \<open>p\<close>, column \<open>c\<close> holds
  the weights of the sub-models that answer class \<open>c\<close> for \<open>p\<close>, divided by the weight
  sum.
\<close>

definition vote_share :: "('i, nat list) MeanModel \<Rightarrow> 'i list \<Rightarrow> RealMatrix" where
  "vote_share e X =
     tabulate (length X) (m_outputDim e)
       (\<lambda>p c. (\<Sum>i\<leftarrow>[0..<numberOfModels e].
                  if model_eval (m_models e ! i) X ! p = c then m_weight e ! i else 0)
               / m_weightSum e)"

text \<open>The class indices of a batch as rows with a one in the column of the class.\<close>

definition one_hot :: "nat \<Rightarrow> nat list \<Rightarrow> RealMatrix" where
  "one_hot d labels = tabulate (length labels) d (\<lambda>p c. if labels ! p = c then 1 else 0)"

text \<open>
  The class indices of a batch as they are returned by a sub-model, read as numbers:
  one row with one entry per input.
\<close>

definition raw_classes :: "nat list \<Rightarrow> RealMatrix" where
  "raw_classes labels = \<lparr>size2 = 1, rows = map (\<lambda>c. [real c]) labels\<rparr>"

text \<open>
  The sub-models answer a batch \<open>X\<close> in the declared output size: matrices with one row
  per input and \<^verbatim>\<open>m_outputDim\<close> columns, or one class index below \<^verbatim>\<open>m_outputDim\<close> per
  input.
\<close>

definition answers_fit_RealVector :: "('i, RealMatrix) MeanModel \<Rightarrow> 'i list \<Rightarrow> bool" where
  "answers_fit_RealVector e X =
     list_all (\<lambda>m. conforms (length X) (m_outputDim e) (model_eval m X)) (m_models e)"

definition answers_fit_uint :: "('i, nat list) MeanModel \<Rightarrow> 'i list \<Rightarrow> bool" where
  "answers_fit_uint e X =
     list_all (\<lambda>m. length (model_eval m X) = length X
                   \<and> list_all (\<lambda>c. c < m_outputDim e) (model_eval m X)) (m_models e)"

subsection \<open>Concrete sub-models\<close>

text \<open>
  Two small sub-models on numbers as inputs: one answers the row \<open>[a * x, a * x + 1]\<close>
  for the input \<open>x\<close>, the other answers the class \<open>k\<close> for every input.
\<close>

definition affine_model :: "real \<Rightarrow> (real, RealMatrix) ModelType" where
  "affine_model a =
     \<lparr>model_eval = (\<lambda>X. \<lparr>size2 = 2, rows = map (\<lambda>x. [a * x, a * x + 1]) X\<rparr>),
      model_inputShape = [1], model_outputShape = [2]\<rparr>"

definition class_model :: "nat \<Rightarrow> (real, nat list) ModelType" where
  "class_model k =
     \<lparr>model_eval = (\<lambda>X. map (\<lambda>x. k) X),
      model_inputShape = [1], model_outputShape = [3]\<rparr>"

section \<open>The objective function: \<^verbatim>\<open>ErrorFunction\<close>\<close>

text \<open>
  Of a \<^verbatim>\<open>SingleObjectiveFunction\<close>, the type of the regulariser, the engine uses the
  value and the gradient at a point.
\<close>

record SingleObjectiveFunction =
  objective_eval :: "real list \<Rightarrow> real"
  objective_gradient :: "real list \<Rightarrow> real list"

text \<open>
  Modelled from the spec: \<^verbatim>\<open>detail::FunctionWrapperBase\<close>, the type-erased wrapper of
  dataset, model and loss behind \<^verbatim>\<open>mp_wrapper\<close> (\<^verbatim>\<open>Impl/FunctionWrapperBase.h\<close> is not
  among the sources). The engine asks it for the number of variables, a starting point,
  and the batch-normalised error of a parameter vector with its gradient. With
  minibatches the last two depend on the batch that is sampled; evaluation is
  deterministic for a fixed parameter vector and a fixed random draw, and \<open>draw\<close> is
  that draw.
\<close>

record FunctionWrapperBase =
  wrapper_numberOfVariables :: nat
  wrapper_proposeStartingPoint :: "real list"
  wrapper_error :: "nat \<Rightarrow> real list \<Rightarrow> real"
  wrapper_gradient :: "nat \<Rightarrow> real list \<Rightarrow> real list"

text \<open>The members of the class; a null \<^verbatim>\<open>m_regularizer\<close> is \<open>None\<close>.\<close>

record ErrorFunction =
  mp_wrapper :: FunctionWrapperBase
  m_regularizer :: "SingleObjectiveFunction option"
  m_regularizationStrength :: real

definition setRegularizer ::
  "real \<Rightarrow> SingleObjectiveFunction option \<Rightarrow> ErrorFunction \<Rightarrow> ErrorFunction" where
  "setRegularizer factor regularizer f =
     f\<lparr>m_regularizer := regularizer, m_regularizationStrength := factor\<rparr>"

definition proposeStartingPoint :: "ErrorFunction \<Rightarrow> real list" where
  "proposeStartingPoint f = wrapper_proposeStartingPoint (mp_wrapper f)"

definition numberOfVariables :: "ErrorFunction \<Rightarrow> nat" where
  "numberOfVariables f = wrapper_numberOfVariables (mp_wrapper f)"

text \<open>The error and the gradient before regularisation.\<close>

definition baseError :: "ErrorFunction \<Rightarrow> nat \<Rightarrow> real list \<Rightarrow> real" where
  "baseError f draw input = wrapper_error (mp_wrapper f) draw input"

definition baseGradient :: "ErrorFunction \<Rightarrow> nat \<Rightarrow> real list \<Rightarrow> real list" where
  "baseGradient f draw input = wrapper_gradient (mp_wrapper f) draw input"

text \<open>
  Modelled from the spec: \<^verbatim>\<open>ErrorFunction::eval\<close>, which the header declares and
  \<^verbatim>\<open>Impl/ErrorFunction.inl\<close> (not among the sources) defines. Section 4.1: a parameter
  vector of the wrong length is a contract violation surfaced immediately; otherwise the
  batch-normalised error is computed and the regularisation term
  \<^verbatim>\<open>factor * regularizer(params)\<close> is added if a regulariser is set.
\<close>

definition eval :: "ErrorFunction \<Rightarrow> nat \<Rightarrow> real list \<Rightarrow> failure + real" where
  "eval f draw input =
     (if length input \<noteq> numberOfVariables f then Inl SizeCheck
      else case m_regularizer f of
             None \<Rightarrow> Inr (wrapper_error (mp_wrapper f) draw input)
           | Some r \<Rightarrow>
               Inr (wrapper_error (mp_wrapper f) draw input
                    + m_regularizationStrength f * objective_eval r input))"

text \<open>
  Modelled from the spec: \<^verbatim>\<open>ErrorFunction::evalDerivative\<close>, defined in the same missing
  file. Section 4.1: as \<^verbatim>\<open>eval\<close>, and the gradient of the error is computed as well,
  \<^verbatim>\<open>factor * regularizerGradient\<close> is added to it if a regulariser is set, and the
  scalar error is returned with the gradient (the content of \<^verbatim>\<open>outDerivative\<close> on
  return).
\<close>

definition evalDerivative ::
  "ErrorFunction \<Rightarrow> nat \<Rightarrow> real list \<Rightarrow> failure + real \<times> real list" where
  "evalDerivative f draw input =
     (if length input \<noteq> numberOfVariables f then Inl SizeCheck
      else case m_regularizer f of
             None \<Rightarrow>
               Inr (wrapper_error (mp_wrapper f) draw input,
                    wrapper_gradient (mp_wrapper f) draw input)
           | Some r \<Rightarrow>
               Inr (wrapper_error (mp_wrapper f) draw input
                    + m_regularizationStrength f * objective_eval r input,
                    map2 (+) (wrapper_gradient (mp_wrapper f) draw input)
                      (map (\<lambda>g. m_regularizationStrength f * g) (objective_gradient r input))))"

subsection \<open>A concrete objective\<close>

text \<open>
  A wrapper over two variables whose error is the sum of the squares of the parameters,
  whatever batch is drawn, and a regulariser that sums the parameters.
\<close>

definition squares_wrapper :: FunctionWrapperBase where
  "squares_wrapper =
     \<lparr>wrapper_numberOfVariables = 2,
      wrapper_proposeStartingPoint = [0, 0],
      wrapper_error = (\<lambda>draw p. \<Sum>x\<leftarrow>p. x * x),
      wrapper_gradient = (\<lambda>draw p. map (\<lambda>x. 2 * x) p)\<rparr>"

definition sum_objective :: SingleObjectiveFunction where
  "sum_objective =
     \<lparr>objective_eval = (\<lambda>p. \<Sum>x\<leftarrow>p. x), objective_gradient = (\<lambda>p. map (\<lambda>x. 1) p)\<rparr>"

definition squares_error :: ErrorFunction where
  "squares_error =
     \<lparr>mp_wrapper = squares_wrapper, m_regularizer = None, m_regularizationStrength = 0\<rparr>"

section \<open>Lemmas on loops and matrices\<close>

lemma and_then_simps [simp]:
  "and_then (Inl x) f = Inl x" "and_then (Inr v) f = f v"
  by (simp_all add: and_then_def)

lemma for_each_append:
  "for_each (xs @ ys) body s = and_then (for_each xs body s) (for_each ys body)"
  by (induction xs arbitrary: s) (auto simp: and_then_def split: sum.splits)

lemma for_each_snoc:
  "for_each (xs @ [x]) body s = and_then (for_each xs body s) (body x)"
  by (simp add: for_each_append and_then_def split: sum.splits)

lemma tabulate_cong:
  "(\<And>p c. p < n \<Longrightarrow> c < d \<Longrightarrow> f p c = g p c) \<Longrightarrow> tabulate n d f = tabulate n d g"
  by (simp add: tabulate_def)

lemma tabulate_sizes [simp]:
  "size1 (tabulate n d f) = n" "size2 (tabulate n d f) = d"
  by (simp_all add: tabulate_def size1_def)

lemma tabulate_entry [simp]:
  "p < n \<Longrightarrow> c < d \<Longrightarrow> entry (tabulate n d f) p c = f p c"
  by (simp add: tabulate_def entry_def)

lemma conforms_tabulate: "conforms n d (tabulate n d f)"
  by (simp add: conforms_def wf_matrix_def tabulate_def size1_def list_all_iff)

lemma conforms_eq_tabulate: "conforms n d M \<Longrightarrow> M = tabulate n d (entry M)"
  by (cases M)
     (auto simp: conforms_def wf_matrix_def tabulate_def size1_def entry_def list_all_length
           intro!: nth_equalityI)

lemma clear_resize: "clear (resize M n d) = tabulate n d (\<lambda>p c. 0)"
  by (simp add: clear_def resize_def tabulate_def o_def)

lemma plus_assign_tabulate:
  assumes "conforms n d B"
  shows "plus_assign (tabulate n d g) (scale w B)
         = Inr (tabulate n d (\<lambda>p c. g p c + w * entry B p c))"
proof -
  from assms have len: "length (rows B) = n" and s2: "size2 B = d"
    and row: "\<And>p. p < n \<Longrightarrow> length (rows B ! p) = d"
    by (simp_all add: conforms_def wf_matrix_def size1_def list_all_length)
  have "map2 (map2 (+)) (map (\<lambda>p. map (g p) [0..<d]) [0..<n])
          (map (map (\<lambda>x. w * x)) (rows B))
        = map (\<lambda>p. map (\<lambda>c. g p c + w * entry B p c) [0..<d]) [0..<n]"
    using len row by (auto intro!: nth_equalityI simp: entry_def)
  then show ?thesis
    using len s2 by (simp add: plus_assign_def scale_def tabulate_def size1_def)
qed

lemma div_assign_tabulate:
  "s \<noteq> 0 \<Longrightarrow> div_assign (tabulate n d g) s = Inr (tabulate n d (\<lambda>p c. g p c / s))"
  by (simp add: div_assign_def tabulate_def o_def)

lemma add_at_tabulate:
  assumes "p < n" "c < d"
  shows "add_at (tabulate n d g) p c w
         = Inr (tabulate n d (\<lambda>p' c'. g p' c' + (if p' = p \<and> c' = c then w else 0)))"
proof -
  have "(map (\<lambda>p. map (g p) [0..<d]) [0..<n])
          [p := (map (g p) [0..<d])[c := g p c + w]]
        = map (\<lambda>p'. map (\<lambda>c'. g p' c' + (if p' = p \<and> c' = c then w else 0)) [0..<d]) [0..<n]"
    using assms by (auto intro!: nth_equalityI simp: nth_list_update)
  then show ?thesis
    using assms by (simp add: add_at_def tabulate_def size1_def)
qed

subsection \<open>The two aggregation loops on answers that fit\<close>

lemma RealVector_loop:
  assumes "k \<le> length ms" "k \<le> length ws"
    and "\<And>i. i < k \<Longrightarrow> conforms n d (model_eval (ms ! i) X)"
  shows "for_each [0..<k]
           (\<lambda>i out. and_then (elem_at ws i)
              (\<lambda>w. plus_assign out (scale w (model_eval (ms ! i) X))))
           (tabulate n d (\<lambda>p c. 0))
         = Inr (tabulate n d
                 (\<lambda>p c. \<Sum>i\<leftarrow>[0..<k]. ws ! i * entry (model_eval (ms ! i) X) p c))"
  using assms
proof (induction k)
  case 0
  show ?case by simp
next
  case (Suc k)
  have wk: "elem_at ws k = Inr (ws ! k)"
    using Suc.prems by (simp add: elem_at_def)
  have B: "conforms n d (model_eval (ms ! k) X)"
    using Suc.prems by simp
  show ?case
    using Suc by (simp add: for_each_snoc wk plus_assign_tabulate [OF B])
qed

lemma vote_loop:
  assumes "j \<le> n" "j \<le> length r" "\<And>p. p < j \<Longrightarrow> r ! p < m_outputDim e"
    and "i < length (m_weight e)"
  shows "for_each [0..<j] (vote e i r) (tabulate n (m_outputDim e) g)
         = Inr (tabulate n (m_outputDim e)
                 (\<lambda>p c. g p c + (if p < j \<and> r ! p = c then m_weight e ! i else 0)))"
  using assms
proof (induction j)
  case 0
  show ?case by simp
next
  case (Suc j)
  have "vote e i r j (tabulate n (m_outputDim e) h)
        = Inr (tabulate n (m_outputDim e)
                (\<lambda>p c. h p c + (if p = j \<and> c = r ! j then m_weight e ! i else 0)))" for h
    using Suc.prems by (simp add: vote_def elem_at_def add_at_tabulate)
  then show ?case
    using Suc by (auto simp: for_each_snoc less_Suc_eq intro!: tabulate_cong)
qed

lemma uint_loop:
  assumes "k \<le> length ms" "k \<le> length (m_weight e)"
    and "\<And>i. i < k \<Longrightarrow> length (model_eval (ms ! i) X) = n"
    and "\<And>i p. i < k \<Longrightarrow> p < n \<Longrightarrow> model_eval (ms ! i) X ! p < m_outputDim e"
  shows "for_each [0..<k]
           (\<lambda>i out. for_each [0..<n] (vote e i (model_eval (ms ! i) X)) out)
           (tabulate n (m_outputDim e) (\<lambda>p c. 0))
         = Inr (tabulate n (m_outputDim e)
                 (\<lambda>p c. \<Sum>i\<leftarrow>[0..<k].
                          if model_eval (ms ! i) X ! p = c then m_weight e ! i else 0))"
  using assms
proof (induction k)
  case 0
  show ?case by simp
next
  case (Suc k)
  have "for_each [0..<n] (vote e k (model_eval (ms ! k) X)) (tabulate n (m_outputDim e) g)
        = Inr (tabulate n (m_outputDim e)
                (\<lambda>p c. g p c + (if p < n \<and> model_eval (ms ! k) X ! p = c
                                  then m_weight e ! k else 0)))" for g
    using Suc.prems by (intro vote_loop) simp_all
  then show ?case
    using Suc by (auto simp: for_each_snoc intro!: tabulate_cong)
qed

subsection \<open>Evaluation on answers that fit\<close>

lemma eval_RealVector_fit:
  assumes "length (m_models e) \<le> length (m_weight e)"
    and "m_weightSum e \<noteq> 0"
    and "answers_fit_RealVector e X"
  shows "eval_RealVector e X outputs = Inr (weighted_mean e X)"
proof -
  have fit: "\<And>i. i < length (m_models e) \<Longrightarrow>
      conforms (length X) (m_outputDim e) (model_eval (m_models e ! i) X)"
    using assms(3) by (simp add: answers_fit_RealVector_def list_all_length)
  have "for_each [0..<length (m_models e)]
          (\<lambda>i out. and_then (elem_at (m_weight e) i)
             (\<lambda>w. plus_assign out (scale w (model_eval (m_models e ! i) X))))
          (tabulate (length X) (m_outputDim e) (\<lambda>p c. 0))
        = Inr (tabulate (length X) (m_outputDim e)
                (\<lambda>p c. \<Sum>i\<leftarrow>[0..<length (m_models e)].
                          m_weight e ! i * entry (model_eval (m_models e ! i) X) p c))"
    using assms(1) fit by (intro RealVector_loop) simp_all
  then show ?thesis
    using assms(2)
    by (simp add: eval_RealVector_def doEval_RealVector_def clear_resize
        div_assign_tabulate weighted_mean_def numberOfModels_def)
qed

lemma eval_uint_fit:
  assumes "length (m_models e) \<le> length (m_weight e)"
    and "m_weightSum e \<noteq> 0"
    and "answers_fit_uint e X"
  shows "eval_uint e X outputs = Inr (vote_share e X)"
proof -
  have len: "\<And>i. i < length (m_models e) \<Longrightarrow>
      length (model_eval (m_models e ! i) X) = length X"
    and below: "\<And>i p. i < length (m_models e) \<Longrightarrow> p < length X \<Longrightarrow>
      model_eval (m_models e ! i) X ! p < m_outputDim e"
    using assms(3) by (simp_all add: answers_fit_uint_def list_all_length)
  have "for_each [0..<length (m_models e)]
          (\<lambda>i out. for_each [0..<length X] (vote e i (model_eval (m_models e ! i) X)) out)
          (tabulate (length X) (m_outputDim e) (\<lambda>p c. 0))
        = Inr (tabulate (length X) (m_outputDim e)
                (\<lambda>p c. \<Sum>i\<leftarrow>[0..<length (m_models e)].
                          if model_eval (m_models e ! i) X ! p = c then m_weight e ! i else 0))"
    using assms(1) len below by (intro uint_loop) simp_all
  then show ?thesis
    using assms(2)
    by (simp add: eval_uint_def doEval_uint_def clear_resize
        div_assign_tabulate vote_share_def numberOfModels_def)
qed

subsection \<open>Failures of the loop over class indices\<close>

lemma for_each_good:
  assumes "\<And>i s. i \<in> set is \<Longrightarrow> good s \<Longrightarrow>
             (case body i s of Inl y \<Rightarrow> y = SizeCheck | Inr s' \<Rightarrow> good s')"
    and "good s"
  shows "case for_each is body s of Inl y \<Rightarrow> y = SizeCheck | Inr s' \<Rightarrow> good s'"
  using assms
proof (induction "is" arbitrary: s)
  case Nil
  then show ?case by simp
next
  case (Cons i "is")
  have step: "case body i s of Inl y \<Rightarrow> y = SizeCheck | Inr s' \<Rightarrow> good s'"
    using Cons.prems by simp
  show ?case
  proof (cases "body i s")
    case (Inl y)
    then show ?thesis using step by simp
  next
    case (Inr s')
    then have "good s'" using step by simp
    then have "case for_each is body s' of Inl y \<Rightarrow> y = SizeCheck | Inr s' \<Rightarrow> good s'"
      using Cons.prems(1) by (intro Cons.IH) simp_all
    then show ?thesis using Inr by simp
  qed
qed

lemma for_each_bad:
  assumes "\<And>i s. i \<in> set is \<Longrightarrow> good s \<Longrightarrow>
             (case body i s of Inl y \<Rightarrow> y = SizeCheck | Inr s' \<Rightarrow> good s')"
    and "\<And>i s. i \<in> set is \<Longrightarrow> bad i \<Longrightarrow> good s \<Longrightarrow> body i s = Inl SizeCheck"
    and "good s" "\<exists>i\<in>set is. bad i"
  shows "for_each is body s = Inl SizeCheck"
  using assms
proof (induction "is" arbitrary: s)
  case Nil
  then show ?case by simp
next
  case (Cons i "is")
  have step: "case body i s of Inl y \<Rightarrow> y = SizeCheck | Inr s' \<Rightarrow> good s'"
    using Cons.prems by simp
  show ?case
  proof (cases "body i s")
    case (Inl y)
    then show ?thesis using step by simp
  next
    case (Inr s')
    then have "good s'" using step by simp
    moreover have "\<not> bad i"
      using Cons.prems(2) [of i s] Cons.prems(3) Inr by auto
    then have "\<exists>i\<in>set is. bad i"
      using Cons.prems(4) by simp
    ultimately have "for_each is body s' = Inl SizeCheck"
      using Cons.prems(1,2) by (intro Cons.IH) simp_all
    then show ?thesis using Inr by simp
  qed
qed

lemma vote_conforms:
  assumes "conforms n (m_outputDim e) out" "p < n" "p < length r" "i < length (m_weight e)"
  shows "case vote e i r p out of
           Inl y \<Rightarrow> y = SizeCheck
         | Inr out' \<Rightarrow> conforms n (m_outputDim e) out'"
proof -
  have out: "out = tabulate n (m_outputDim e) (entry out)"
    using assms(1) by (rule conforms_eq_tabulate)
  show ?thesis
    using assms(2-4)
    by (subst out) (simp add: vote_def elem_at_def add_at_tabulate conforms_tabulate)
qed

lemma vote_bad:
  "p < length r \<Longrightarrow> m_outputDim e \<le> r ! p \<Longrightarrow> vote e i r p out = Inl SizeCheck"
  by (simp add: vote_def elem_at_def)

lemma eval_uint_mismatch:
  assumes weights: "length (m_models e) \<le> length (m_weight e)"
    and answers: "\<forall>m\<in>set (m_models e). length X \<le> length (model_eval m X)"
    and mismatch: "\<exists>m\<in>set (m_models e). \<exists>p<length X. m_outputDim e \<le> model_eval m X ! p"
  shows "eval_uint e X outputs = Inl SizeCheck"
proof -
  let ?n = "length X" and ?d = "m_outputDim e"
  let ?r = "\<lambda>i. model_eval (m_models e ! i) X"
  let ?bad = "\<lambda>i p. ?d \<le> ?r i ! p"
  let ?inner = "\<lambda>i out. for_each [0..<?n] (vote e i (?r i)) out"
  let ?good = "conforms ?n ?d"
  have len: "?n \<le> length (?r i)" if "i < length (m_models e)" for i
    using answers that by simp
  have step: "case vote e i (?r i) p out of Inl y \<Rightarrow> y = SizeCheck | Inr out' \<Rightarrow> ?good out'"
    if "i < length (m_models e)" "p \<in> set [0..<?n]" "?good out" for i p out
    using that len [of i] weights by (intro vote_conforms) simp_all
  have inner_good: "case ?inner i out of Inl y \<Rightarrow> y = SizeCheck | Inr out' \<Rightarrow> ?good out'"
    if "i \<in> set [0..<length (m_models e)]" "?good out" for i out
    using that step by (intro for_each_good [where good = ?good]) simp_all
  have inner_bad: "?inner i out = Inl SizeCheck"
    if "i \<in> set [0..<length (m_models e)]" "\<exists>p\<in>set [0..<?n]. ?bad i p" "?good out" for i out
  proof (rule for_each_bad [where good = ?good and bad = "?bad i"])
    show "\<exists>p\<in>set [0..<?n]. ?bad i p" by (rule that(2))
    show "?good out" by (rule that(3))
    show "case vote e i (?r i) p s of Inl y \<Rightarrow> y = SizeCheck | Inr s' \<Rightarrow> ?good s'"
      if "p \<in> set [0..<?n]" "?good s" for p s
      using step \<open>i \<in> set [0..<length (m_models e)]\<close> that by simp
    show "vote e i (?r i) p s = Inl SizeCheck" if "p \<in> set [0..<?n]" "?bad i p" for p s
      using that len [of i] \<open>i \<in> set [0..<length (m_models e)]\<close> by (intro vote_bad) simp_all
  qed
  from mismatch obtain i p where "i < length (m_models e)" "p < ?n" "?bad i p"
    by (auto simp: in_set_conv_nth)
  then have ex: "\<exists>i\<in>set [0..<length (m_models e)]. \<exists>p\<in>set [0..<?n]. ?bad i p"
    by (intro bexI [of _ i] bexI [of _ p]) simp_all
  have "for_each [0..<length (m_models e)] ?inner (tabulate ?n ?d (\<lambda>p c. 0)) = Inl SizeCheck"
  proof (rule for_each_bad
          [where good = ?good and bad = "\<lambda>i. \<exists>p\<in>set [0..<?n]. ?bad i p"])
    show "\<exists>i\<in>set [0..<length (m_models e)]. \<exists>p\<in>set [0..<?n]. ?bad i p" by (rule ex)
    show "?good (tabulate ?n ?d (\<lambda>p c. 0))" by (rule conforms_tabulate)
    show "case ?inner i s of Inl y \<Rightarrow> y = SizeCheck | Inr s' \<Rightarrow> ?good s'"
      if "i \<in> set [0..<length (m_models e)]" "?good s" for i s
      using that by (rule inner_good)
    show "?inner i s = Inl SizeCheck"
      if "i \<in> set [0..<length (m_models e)]" "\<exists>p\<in>set [0..<?n]. ?bad i p" "?good s" for i s
      using that by (rule inner_bad)
  qed
  then show ?thesis
    by (simp add: eval_uint_def doEval_uint_def clear_resize)
qed

subsection \<open>The running weight sum\<close>

lemma sum_list_update_real:
  fixes xs :: "real list"
  shows "i < length xs \<Longrightarrow> sum_list (xs[i := w]) = sum_list xs + (w - xs ! i)"
  by (induction xs arbitrary: i) (auto split: nat.splits)

lemma perform_kind: "perform x e = Inl y \<Longrightarrow> y = Undefined"
  by (cases x) (auto simp: setWeight_def elem_at_def and_then_def split: if_splits)

lemma perform_cover:
  "length (m_models e) \<le> length (m_weight e) \<Longrightarrow> perform x e = Inr e'
   \<Longrightarrow> length (m_models e') \<le> length (m_weight e')"
  by (cases x)
     (auto simp: addModel_def setWeight_def clearModels_def clear_vector_def elem_at_def
        and_then_def split: if_splits)

lemma perform_consistent:
  "consistent e \<Longrightarrow> ClearModels \<noteq> x \<Longrightarrow> perform x e = Inr e' \<Longrightarrow> consistent e'"
  by (cases x)
     (auto simp: consistent_def addModel_def setWeight_def elem_at_def and_then_def
        sum_list_update_real split: if_splits)

lemma run_kind: "run xs e = Inl y \<Longrightarrow> y = Undefined"
proof (induction xs arbitrary: e)
  case Nil
  then show ?case by simp
next
  case (Cons x xs)
  then show ?case
    by (cases "perform x e") (auto dest: perform_kind)
qed

lemma run_cover:
  "length (m_models e) \<le> length (m_weight e) \<Longrightarrow> run xs e = Inr e'
   \<Longrightarrow> length (m_models e') \<le> length (m_weight e')"
proof (induction xs arbitrary: e)
  case Nil
  then show ?case by simp
next
  case (Cons x xs)
  then show ?case
    by (cases "perform x e") (auto dest: perform_cover)
qed

lemma run_consistent:
  "consistent e \<Longrightarrow> ClearModels \<notin> set xs \<Longrightarrow> run xs e = Inr e' \<Longrightarrow> consistent e'"
proof (induction xs arbitrary: e)
  case Nil
  then show ?case by simp
next
  case (Cons x xs)
  then show ?case
    by (cases "perform x e") (auto dest: perform_consistent)
qed

lemma setWeight_in_range:
  assumes "i < length (m_weight e)"
  shows "setWeight i newWeight e
         = Inr (e\<lparr>m_weightSum := m_weightSum e + (newWeight - m_weight e ! i),
                   m_weight := (m_weight e)[i := newWeight]\<rparr>)"
  using assms by (simp add: setWeight_def elem_at_def)

subsection \<open>Rounding to a double\<close>

lemma floor_log2:
  assumes "(2::real) ^ k \<le> x" "x < 2 ^ Suc k"
  shows "\<lfloor>log 2 x\<rfloor> = int k"
proof -
  have "(0::real) < 2 ^ k" by simp
  then have pos: "0 < x" using assms(1) by linarith
  have "(2::real) powr real_of_int (int k) \<le> x \<and> x < 2 powr real_of_int (int k + 1)"
    using assms by (simp add: powr_realpow add.commute powr_add)
  then show ?thesis
    using floor_log_eq_powr_iff [OF pos, of 2 "int k"] by simp
qed

lemma round_double_2_53: "round_double (0 + 2 ^ 53) = 2 ^ 53"
proof -
  have "\<lfloor>log 2 \<bar>0 + 2 ^ 53 :: real\<bar>\<rfloor> = int 53"
    by (rule floor_log2) simp_all
  then show ?thesis
    by (simp add: round_double_def round_half_even_def Let_def)
qed

lemma round_double_2_53_plus_1: "round_double (2 ^ 53 + 1) = 2 ^ 53"
proof -
  have "\<lfloor>log 2 \<bar>2 ^ 53 + 1 :: real\<bar>\<rfloor> = int 53"
    by (rule floor_log2) simp_all
  then show ?thesis
    by (simp add: round_double_def round_half_even_def Let_def)
qed

lemma round_double_1_minus_2_53: "round_double (1 - 2 ^ 53) = 1 - 2 ^ 53"
proof -
  have "\<lfloor>log 2 \<bar>1 - 2 ^ 53 :: real\<bar>\<rfloor> = int 52"
    by (rule floor_log2) simp_all
  then show ?thesis
    by (simp add: round_double_def round_half_even_def Let_def)
qed

lemma round_double_1: "round_double 1 = 1"
  by (simp add: round_double_def round_half_even_def Let_def powr_minus)

section \<open>The claims\<close>

subsection \<open>Evaluation of the ensemble\<close>

text \<open>
  Claim C1. For an ensemble of sub-models with continuous output, \<^verbatim>\<open>eval\<close> on a batch
  returns the sum over the sub-models of weight times output, divided by the weight
  sum: the weighted arithmetic mean in output space. The ensemble holds one weight per
  model, the sub-models answer in the declared output size, and the weight sum is not
  zero (so that the quotient is a real number).
\<close>

theorem eval_RealVector_weighted_mean:
  assumes "length (m_weight e) = length (m_models e)"
    and "m_weightSum e \<noteq> 0"
    and "answers_fit_RealVector e X"
  shows "eval_RealVector e X outputs = Inr (weighted_mean e X)"
  using assms by (intro eval_RealVector_fit) simp_all

theorem eval_RealVector_weighted_mean_witness:
  "(let e = snd (addModel (affine_model 3) 3 (snd (addModel (affine_model 1) 1
               (snd (setOutputSize 2 (MeanModel 0))))));
        outputs = \<lparr>size2 = 1, rows = [[7]]\<rparr>
    in length (m_weight e) = length (m_models e) \<and> m_weightSum e \<noteq> 0
       \<and> answers_fit_RealVector e [1, 2]
       \<and> eval_RealVector e [1, 2] outputs = Inr (weighted_mean e [1, 2])
       \<and> weighted_mean e [1, 2] = \<lparr>size2 = 2, rows = [[5 / 2, 7 / 2], [5, 6]]\<rparr>)"
  using eval_RealVector_weighted_mean
    [where e = "snd (addModel (affine_model 3) 3 (snd (addModel (affine_model 1) 1
               (snd (setOutputSize 2 (MeanModel 0))))))"
       and X = "[1, 2]" and outputs = "\<lparr>size2 = 1, rows = [[7]]\<rparr>"]
  by (simp add: Let_def addModel_def setOutputSize_def MeanModel_def affine_model_def
      answers_fit_RealVector_def conforms_def wf_matrix_def size1_def weighted_mean_def
      tabulate_def numberOfModels_def entry_def upt_rec)

text \<open>
  Claim C2. For an ensemble of sub-models that answer with class indices, \<^verbatim>\<open>eval\<close>
  computes the weighted vote: for each input, the class index of each sub-model selects
  a column, the column accumulates the weight of that sub-model, and the row is divided
  by the weight sum. In particular, two sub-models of weight 1 that vote for the classes
  0 and 1 give the entries 1/2 and 1/2 in these columns. The conditions are those of C1,
  with class indices below the declared output size.
\<close>

theorem eval_uint_vote_share:
  assumes "length (m_weight e) = length (m_models e)"
    and "m_weightSum e \<noteq> 0"
    and "answers_fit_uint e X"
  shows "eval_uint e X outputs = Inr (vote_share e X)
         \<and> (m_weight e = [1, 1] \<and> m_weightSum e = 2 \<and> p < length X
              \<and> model_eval (m_models e ! 0) X ! p = 0
              \<and> model_eval (m_models e ! 1) X ! p = 1
            \<longrightarrow> entry (vote_share e X) p 0 = 1 / 2 \<and> entry (vote_share e X) p 1 = 1 / 2)"
proof (intro conjI impI)
  show "eval_uint e X outputs = Inr (vote_share e X)"
    using assms by (intro eval_uint_fit) simp_all
next
  assume a: "m_weight e = [1, 1] \<and> m_weightSum e = 2 \<and> p < length X
              \<and> model_eval (m_models e ! 0) X ! p = 0
              \<and> model_eval (m_models e ! 1) X ! p = 1"
  then have two: "length (m_models e) = 2"
    using assms(1) by simp
  have "list_all (\<lambda>c. c < m_outputDim e) (model_eval (m_models e ! 1) X)"
    and "length (model_eval (m_models e ! 1) X) = length X"
    using assms(3) two by (simp_all add: answers_fit_uint_def list_all_length)
  then have "model_eval (m_models e ! 1) X ! p < m_outputDim e"
    using a by (auto simp: list_all_length)
  then have d: "1 < m_outputDim e" "0 < m_outputDim e"
    using a by auto
  show "entry (vote_share e X) p 0 = 1 / 2"
    using a two d by (simp add: vote_share_def numberOfModels_def upt_rec)
  show "entry (vote_share e X) p 1 = 1 / 2"
    using a two d by (simp add: vote_share_def numberOfModels_def upt_rec)
qed

theorem eval_uint_vote_share_witness:
  "(let e = snd (addModel (class_model 1) 1 (snd (addModel (class_model 0) 1
               (snd (setOutputSize 3 (MeanModel 0))))));
        outputs = \<lparr>size2 = 0, rows = []\<rparr>
    in length (m_weight e) = length (m_models e) \<and> m_weightSum e \<noteq> 0
       \<and> answers_fit_uint e [4, 9]
       \<and> eval_uint e [4, 9] outputs = Inr (vote_share e [4, 9])
       \<and> vote_share e [4, 9] = \<lparr>size2 = 3, rows = [[1 / 2, 1 / 2, 0], [1 / 2, 1 / 2, 0]]\<rparr>
       \<and> m_weight e = [1, 1] \<and> m_weightSum e = 2
       \<and> model_eval (m_models e ! 0) [4, 9] ! 1 = 0
       \<and> model_eval (m_models e ! 1) [4, 9] ! 1 = 1
       \<and> entry (vote_share e [4, 9]) 1 0 = 1 / 2 \<and> entry (vote_share e [4, 9]) 1 1 = 1 / 2)"
  using eval_uint_vote_share
    [where e = "snd (addModel (class_model 1) 1 (snd (addModel (class_model 0) 1
               (snd (setOutputSize 3 (MeanModel 0))))))"
       and X = "[4, 9]" and outputs = "\<lparr>size2 = 0, rows = []\<rparr>" and p = 1]
  by (simp add: Let_def addModel_def setOutputSize_def MeanModel_def class_model_def
      answers_fit_uint_def vote_share_def tabulate_def numberOfModels_def entry_def upt_rec)

text \<open>
  Claim C7 says that an ensemble of exactly one sub-model, added with weight 1, returns
  exactly the raw output of that sub-model for every batch, for both kinds of
  sub-models. Four ensembles show where this ends.
  \<^item> A sub-model that answers with class indices returns one class index per input,
    and the ensemble returns a row of \<^verbatim>\<open>m_outputDim\<close> numbers per input: for the class 2
    on two inputs and three columns these are two rows \<open>[0, 0, 1]\<close>, not the class
    indices.
  \<^item> After \<^verbatim>\<open>addModel(a, 2); clearModels(); addModel(b, 1)\<close> the ensemble holds the one
    sub-model \<open>b\<close>, added with weight 1, and the weights \<open>[0, 1]\<close>: \<^verbatim>\<open>eval\<close> reads the
    weight 0 for \<open>b\<close> and returns zeros.
  \<^item> A class index 2 with the declared output size 2 ends \<^verbatim>\<open>eval\<close> with the failed
    \<^verbatim>\<open>SIZE_CHECK\<close>, and a sub-model with two columns under the declared output size 3
    has no defined result.
\<close>

theorem single_class_model_counterexample:
  "eval_uint (snd (addModel (class_model 2) 1 (snd (setOutputSize 3 (MeanModel 0)))))
     [1, 5] \<lparr>size2 = 0, rows = []\<rparr>
   = Inr \<lparr>size2 = 3, rows = [[0, 0, 1], [0, 0, 1]]\<rparr>
   \<and> model_eval (class_model 2) [1, 5] = [2, 2]
   \<and> eval_uint (snd (addModel (class_model 2) 1 (snd (setOutputSize 3 (MeanModel 0)))))
       [1, 5] \<lparr>size2 = 0, rows = []\<rparr>
     \<noteq> Inr (raw_classes (model_eval (class_model 2) [1, 5]))
   \<and> eval_RealVector
       (snd (addModel (affine_model 2) 1 (snd (clearModels (snd (addModel (affine_model 7) 2
          (snd (setOutputSize 2 (MeanModel 0)))))))))
       [1, 5] \<lparr>size2 = 0, rows = []\<rparr>
     = Inr \<lparr>size2 = 2, rows = [[0, 0], [0, 0]]\<rparr>
   \<and> model_eval (affine_model 2) [1, 5] = \<lparr>size2 = 2, rows = [[2, 3], [10, 11]]\<rparr>
   \<and> eval_uint (snd (addModel (class_model 2) 1 (snd (setOutputSize 2 (MeanModel 0)))))
       [1, 5] \<lparr>size2 = 0, rows = []\<rparr>
     = Inl SizeCheck
   \<and> eval_RealVector (snd (addModel (affine_model 2) 1 (snd (setOutputSize 3 (MeanModel 0)))))
       [1, 5] \<lparr>size2 = 0, rows = []\<rparr>
     = Inl Undefined"
proof -
  let ?e = "snd (addModel (class_model 2) 1 (snd (setOutputSize 3 (MeanModel 0))))"
  let ?stale = "snd (addModel (affine_model 2) 1 (snd (clearModels (snd (addModel (affine_model 7) 2
          (snd (setOutputSize 2 (MeanModel 0))))))))"
  have "eval_uint ?e [1, 5] \<lparr>size2 = 0, rows = []\<rparr> = Inr (vote_share ?e [1, 5])"
    by (rule eval_uint_fit)
       (simp_all add: addModel_def setOutputSize_def MeanModel_def class_model_def
          answers_fit_uint_def)
  moreover have "vote_share ?e [1, 5] = \<lparr>size2 = 3, rows = [[0, 0, 1], [0, 0, 1]]\<rparr>"
    by (simp add: addModel_def setOutputSize_def MeanModel_def class_model_def
        vote_share_def tabulate_def numberOfModels_def upt_rec)
  moreover have "eval_RealVector ?stale [1, 5] \<lparr>size2 = 0, rows = []\<rparr>
                 = Inr (weighted_mean ?stale [1, 5])"
    by (rule eval_RealVector_fit)
       (simp_all add: addModel_def clearModels_def clear_vector_def setOutputSize_def
          MeanModel_def affine_model_def answers_fit_RealVector_def conforms_def
          wf_matrix_def size1_def)
  moreover have "weighted_mean ?stale [1, 5] = \<lparr>size2 = 2, rows = [[0, 0], [0, 0]]\<rparr>"
    by (simp add: addModel_def clearModels_def clear_vector_def setOutputSize_def
        MeanModel_def affine_model_def weighted_mean_def tabulate_def numberOfModels_def
        entry_def upt_rec)
  moreover have "eval_uint (snd (addModel (class_model 2) 1 (snd (setOutputSize 2 (MeanModel 0)))))
       [1, 5] \<lparr>size2 = 0, rows = []\<rparr> = Inl SizeCheck"
    by (rule eval_uint_mismatch)
       (auto simp: addModel_def setOutputSize_def MeanModel_def class_model_def
          intro!: exI [of _ 0])
  moreover have "eval_RealVector
       (snd (addModel (affine_model 2) 1 (snd (setOutputSize 3 (MeanModel 0)))))
       [1, 5] \<lparr>size2 = 0, rows = []\<rparr> = Inl Undefined"
    by (simp add: eval_RealVector_def doEval_RealVector_def clear_resize addModel_def
        setOutputSize_def MeanModel_def affine_model_def elem_at_def plus_assign_def
        scale_def size1_def)
  ultimately show ?thesis
    by (simp add: class_model_def affine_model_def raw_classes_def)
qed

text \<open>
  Claim C7, amended. A newly constructed ensemble with the declared output size \<open>d\<close>
  to which exactly one sub-model is added, with weight 1, returns for every batch that
  the sub-model answers in the declared size the output matrix of that sub-model, when
  the output is continuous; when the sub-model answers with class indices, it returns
  for each input the row that has a one in the column of the class and zeros elsewhere,
  instead of the class indices. Nothing is said of an ensemble that was cleared before.
\<close>

theorem single_model_weight_one:
  "((e = snd (addModel m 1 (snd (setOutputSize d (MeanModel d0))))
       \<or> e = snd (setOutputSize d (snd (addModel m 1 (MeanModel d0)))))
      \<and> conforms (length X) d (model_eval m X)
    \<longrightarrow> eval_RealVector e X outputs = Inr (model_eval m X))
   \<and> ((e' = snd (addModel m' 1 (snd (setOutputSize d (MeanModel d0))))
       \<or> e' = snd (setOutputSize d (snd (addModel m' 1 (MeanModel d0)))))
      \<and> length (model_eval m' X) = length X
      \<and> list_all (\<lambda>c. c < d) (model_eval m' X)
    \<longrightarrow> eval_uint e' X outputs' = Inr (one_hot d (model_eval m' X)))"
proof (intro conjI impI)
  assume a: "(e = snd (addModel m 1 (snd (setOutputSize d (MeanModel d0))))
       \<or> e = snd (setOutputSize d (snd (addModel m 1 (MeanModel d0)))))
      \<and> conforms (length X) d (model_eval m X)"
  then have e: "m_models e = [m]" "m_weight e = [1]" "m_weightSum e = 1" "m_outputDim e = d"
    by (auto simp: addModel_def setOutputSize_def MeanModel_def)
  then have "eval_RealVector e X outputs = Inr (weighted_mean e X)"
    using a by (intro eval_RealVector_fit) (simp_all add: answers_fit_RealVector_def)
  moreover have "weighted_mean e X = tabulate (length X) d (entry (model_eval m X))"
    using e by (simp add: weighted_mean_def numberOfModels_def)
  ultimately show "eval_RealVector e X outputs = Inr (model_eval m X)"
    using a conforms_eq_tabulate by metis
next
  assume a: "(e' = snd (addModel m' 1 (snd (setOutputSize d (MeanModel d0))))
       \<or> e' = snd (setOutputSize d (snd (addModel m' 1 (MeanModel d0)))))
      \<and> length (model_eval m' X) = length X
      \<and> list_all (\<lambda>c. c < d) (model_eval m' X)"
  then have e: "m_models e' = [m']" "m_weight e' = [1]" "m_weightSum e' = 1" "m_outputDim e' = d"
    by (auto simp: addModel_def setOutputSize_def MeanModel_def)
  then have "eval_uint e' X outputs' = Inr (vote_share e' X)"
    using a by (intro eval_uint_fit) (simp_all add: answers_fit_uint_def)
  moreover have "vote_share e' X = one_hot d (model_eval m' X)"
    using a e by (simp add: vote_share_def one_hot_def numberOfModels_def cong: if_cong)
  ultimately show "eval_uint e' X outputs' = Inr (one_hot d (model_eval m' X))"
    by simp
qed

theorem single_model_weight_one_witness:
  "conforms (length [1, 5 :: real]) 2 (model_eval (affine_model 2) [1, 5])
   \<and> eval_RealVector (snd (addModel (affine_model 2) 1 (snd (setOutputSize 2 (MeanModel 0)))))
       [1, 5] \<lparr>size2 = 4, rows = [[1, 1, 1, 1]]\<rparr>
     = Inr (model_eval (affine_model 2) [1, 5])
   \<and> model_eval (affine_model 2) [1, 5] = \<lparr>size2 = 2, rows = [[2, 3], [10, 11]]\<rparr>
   \<and> length (model_eval (class_model 2) [1, 5]) = length [1, 5 :: real]
   \<and> list_all (\<lambda>c. c < 3) (model_eval (class_model 2) [1, 5])
   \<and> eval_uint (snd (setOutputSize 3 (snd (addModel (class_model 2) 1 (MeanModel 0)))))
       [1, 5] \<lparr>size2 = 4, rows = [[1, 1, 1, 1]]\<rparr>
     = Inr \<lparr>size2 = 3, rows = [[0, 0, 1], [0, 0, 1]]\<rparr>"
  using single_model_weight_one
    [where e = "snd (addModel (affine_model 2) 1 (snd (setOutputSize 2 (MeanModel 0))))"
       and m = "affine_model 2" and X = "[1, 5]" and d = 2 and d0 = 0
       and outputs = "\<lparr>size2 = 4, rows = [[1, 1, 1, 1]]\<rparr>"]
    single_model_weight_one
    [where e' = "snd (setOutputSize 3 (snd (addModel (class_model 2) 1 (MeanModel 0))))"
       and m' = "class_model 2" and X = "[1, 5]" and d = 3 and d0 = 0
       and outputs' = "\<lparr>size2 = 4, rows = [[1, 1, 1, 1]]\<rparr>"]
  by (simp add: affine_model_def class_model_def conforms_def wf_matrix_def size1_def
      one_hot_def tabulate_def upt_rec)


text \<open>
  Claim C9. The overload of \<^verbatim>\<open>eval\<close> with a state object returns the output batch of
  the overload without it and leaves the state object as it was, for both kinds of
  sub-models.
\<close>

theorem eval_State_is_eval:
  "eval_State_RealVector e X outputs state = (eval_RealVector e X outputs, state)
   \<and> eval_State_uint e' X outputs' state' = (eval_uint e' X outputs', state')"
  by (simp add: eval_State_RealVector_def eval_State_uint_def)

theorem eval_State_is_eval_witness:
  "eval_State_RealVector (snd (addModel (affine_model 2) 1 (snd (setOutputSize 2 (MeanModel 0)))))
     [1, 5] \<lparr>size2 = 0, rows = []\<rparr> (42 :: nat)
   = (Inr \<lparr>size2 = 2, rows = [[2, 3], [10, 11]]\<rparr>, 42)
   \<and> eval_State_uint (snd (addModel (class_model 2) 1 (snd (setOutputSize 3 (MeanModel 0)))))
       [1, 5] \<lparr>size2 = 0, rows = []\<rparr> ''state''
     = (Inr \<lparr>size2 = 3, rows = [[0, 0, 1], [0, 0, 1]]\<rparr>, ''state'')"
proof -
  let ?e = "snd (addModel (affine_model 2) 1 (snd (setOutputSize 2 (MeanModel 0))))"
  let ?e' = "snd (addModel (class_model 2) 1 (snd (setOutputSize 3 (MeanModel 0))))"
  have "eval_RealVector ?e [1, 5] \<lparr>size2 = 0, rows = []\<rparr> = Inr (weighted_mean ?e [1, 5])"
    by (rule eval_RealVector_fit)
       (simp_all add: addModel_def setOutputSize_def MeanModel_def affine_model_def
          answers_fit_RealVector_def conforms_def wf_matrix_def size1_def)
  moreover have "weighted_mean ?e [1, 5] = \<lparr>size2 = 2, rows = [[2, 3], [10, 11]]\<rparr>"
    by (simp add: addModel_def setOutputSize_def MeanModel_def affine_model_def
        weighted_mean_def tabulate_def numberOfModels_def entry_def upt_rec)
  moreover have "eval_uint ?e' [1, 5] \<lparr>size2 = 0, rows = []\<rparr> = Inr (vote_share ?e' [1, 5])"
    by (rule eval_uint_fit)
       (simp_all add: addModel_def setOutputSize_def MeanModel_def class_model_def
          answers_fit_uint_def)
  moreover have "vote_share ?e' [1, 5] = \<lparr>size2 = 3, rows = [[0, 0, 1], [0, 0, 1]]\<rparr>"
    by (simp add: addModel_def setOutputSize_def MeanModel_def class_model_def
        vote_share_def tabulate_def numberOfModels_def upt_rec)
  ultimately show ?thesis
    using eval_State_is_eval
      [where e = ?e and e' = ?e' and X = "[1, 5]" and outputs = "\<lparr>size2 = 0, rows = []\<rparr>"
         and outputs' = "\<lparr>size2 = 0, rows = []\<rparr>" and state = "42 :: nat"
         and state' = "''state''"]
    by simp
qed

subsection \<open>Operations on the ensemble\<close>

text \<open>
  Claim C5 says that after every sequence of \<^verbatim>\<open>addModel\<close>, \<^verbatim>\<open>setWeight\<close> and
  \<^verbatim>\<open>clearModels\<close> the weight sum is the exact sum of the weights of the current models.
  \<^item> After \<^verbatim>\<open>addModel(a, 2); clearModels(); addModel(b, 1)\<close> the weights are \<open>[0, 1]\<close>:
    the ensemble holds one model, \<^verbatim>\<open>weight(0)\<close> is 0 and the weight sum is 1.
  \<^item> In double arithmetic, \<^verbatim>\<open>addModel\<close> with the weights \<open>2 ^ 53\<close> and 1 and then
    \<^verbatim>\<open>setWeight(0, 1)\<close> leave the weights \<open>[1, 1]\<close>, whose sum is 2, and the weight sum 1.
\<close>

theorem weightSum_counterexample:
  "run [AddModel (class_model 0) 2, ClearModels, AddModel (class_model 1) 1] (MeanModel 3)
   = Inr \<lparr>m_models = [class_model 1], m_weight = [0, 1], m_weightSum = 1, m_outputDim = 3\<rparr>
   \<and> numberOfModels
       \<lparr>m_models = [class_model 1], m_weight = [0, 1], m_weightSum = 1, m_outputDim = 3\<rparr> = 1
   \<and> weight
       \<lparr>m_models = [class_model 1], m_weight = [0, 1], m_weightSum = 1, m_outputDim = 3\<rparr> 0
     = Inr 0
   \<and> sum_list (current_weights
       \<lparr>m_models = [class_model 1], m_weight = [0, 1], m_weightSum = 1, m_outputDim = 3\<rparr>)
     \<noteq> m_weightSum
       \<lparr>m_models = [class_model 1], m_weight = [0, 1], m_weightSum = 1, m_outputDim = 3\<rparr>
   \<and> setWeight_weightSum_double
       (addModel_weightSum_double (addModel_weightSum_double 0 (2 ^ 53)) 1) 1 (2 ^ 53) = 1
   \<and> sum_list ([2 ^ 53, 1 :: real][0 := 1]) = 2"
proof -
  have "(2::real) ^ 53 + (1 - 2 ^ 53) = 1"
    by simp
  then have "setWeight_weightSum_double
       (addModel_weightSum_double (addModel_weightSum_double 0 (2 ^ 53)) 1) 1 (2 ^ 53) = 1"
    unfolding setWeight_weightSum_double_def addModel_weightSum_double_def
    by (simp only: round_double_2_53 round_double_2_53_plus_1 round_double_1_minus_2_53
        round_double_1)
  then show ?thesis
    by (simp add: addModel_def clearModels_def clear_vector_def MeanModel_def
        numberOfModels_def weight_def elem_at_def current_weights_def)
qed

text \<open>
  Claim C5, amended. After every sequence of \<^verbatim>\<open>addModel\<close>, \<^verbatim>\<open>setWeight\<close> and
  \<^verbatim>\<open>clearModels\<close> on a constructed ensemble (with the indices of \<^verbatim>\<open>setWeight\<close> in range),
  \<^verbatim>\<open>setWeight\<close> returns normally for every index below \<^verbatim>\<open>numberOfModels()\<close> and every
  new weight, of any sign, and \<^verbatim>\<open>weight\<close> then returns the new weight. When the
  sequence has no \<^verbatim>\<open>clearModels\<close> and the sums are exact (not rounded to a double), the
  weight sum is the sum of the weights of the current models, also after that
  \<^verbatim>\<open>setWeight\<close>.
\<close>

theorem weightSum_is_sum_of_weights:
  "case run xs (MeanModel d) of
     Inl y \<Rightarrow> y = Undefined
   | Inr e \<Rightarrow>
       (\<forall>i<numberOfModels e. \<forall>newWeight.
          \<exists>e'. setWeight i newWeight e = Inr e' \<and> weight e' i = Inr newWeight
               \<and> numberOfModels e' = numberOfModels e)
       \<and> (ClearModels \<notin> set xs \<longrightarrow>
            length (current_weights e) = numberOfModels e
            \<and> m_weightSum e = sum_list (current_weights e)
            \<and> (\<forall>i<numberOfModels e. \<forall>newWeight e'.
                  setWeight i newWeight e = Inr e'
                  \<longrightarrow> m_weightSum e' = sum_list (current_weights e')))"
proof (cases "run xs (MeanModel d)")
  case (Inl y)
  then show ?thesis
    by (simp add: run_kind)
next
  case (Inr e)
  have cover: "length (m_models e) \<le> length (m_weight e)"
    using Inr by (rule run_cover [rotated]) (simp add: MeanModel_def)
  have set: "\<exists>e'. setWeight i newWeight e = Inr e' \<and> weight e' i = Inr newWeight
               \<and> numberOfModels e' = numberOfModels e"
    if "i < numberOfModels e" for i newWeight
    using that cover
    by (simp add: setWeight_in_range numberOfModels_def weight_def elem_at_def)
  have sums: "length (current_weights e) = numberOfModels e
            \<and> m_weightSum e = sum_list (current_weights e)
            \<and> (\<forall>i<numberOfModels e. \<forall>newWeight e'.
                  setWeight i newWeight e = Inr e'
                  \<longrightarrow> m_weightSum e' = sum_list (current_weights e'))"
    if "ClearModels \<notin> set xs"
  proof -
    have "consistent (MeanModel d :: ('a, 'b) MeanModel)"
      by (simp add: consistent_def MeanModel_def)
    then have "consistent e"
      using that Inr by (rule run_consistent)
    then show ?thesis
      by (auto simp: consistent_def current_weights_def numberOfModels_def
          setWeight_in_range sum_list_update_real)
  qed
  show ?thesis
    using Inr set sums by simp
qed

theorem weightSum_is_sum_of_weights_witness:
  "run [AddModel (class_model 0) 2, AddModel (class_model 1) 3, SetWeight 0 (- 4),
        AddModel (class_model 2) 0, SetWeight 1 (- 1)] (MeanModel 3)
   = Inr \<lparr>m_models = [class_model 0, class_model 1], m_weight = [- 4, - 1],
          m_weightSum = - 5, m_outputDim = 3\<rparr>
   \<and> ClearModels \<notin> set [AddModel (class_model 0) 2, AddModel (class_model 1) 3,
        SetWeight 0 (- 4), AddModel (class_model 2) 0, SetWeight 1 (- 1)]
   \<and> sum_list (current_weights
       \<lparr>m_models = [class_model 0, class_model 1], m_weight = [- 4, - 1],
        m_weightSum = - 5, m_outputDim = 3\<rparr>) = - 5
   \<and> setWeight 1 7
       \<lparr>m_models = [class_model 0, class_model 1], m_weight = [- 4, - 1],
        m_weightSum = - 5, m_outputDim = 3\<rparr>
     = Inr \<lparr>m_models = [class_model 0, class_model 1], m_weight = [- 4, 7],
            m_weightSum = 3, m_outputDim = 3\<rparr>
   \<and> weight
       \<lparr>m_models = [class_model 0, class_model 1], m_weight = [- 4, 7],
        m_weightSum = 3, m_outputDim = 3\<rparr> 1
     = Inr 7"
  using weightSum_is_sum_of_weights
    [where xs = "[AddModel (class_model 0) 2, AddModel (class_model 1) 3, SetWeight 0 (- 4),
        AddModel (class_model 2) 0, SetWeight 1 (- 1)]" and d = 3]
  by (simp add: addModel_def setWeight_def MeanModel_def numberOfModels_def weight_def
      elem_at_def current_weights_def)

text \<open>
  Claim C6. \<^verbatim>\<open>addModel\<close> with a weight that is not positive reports the failed runtime
  check and leaves the ensemble as it was: models, weights, weight sum and output size.
  With a positive weight it appends the model and the weight and adds the weight to the
  weight sum.
\<close>

theorem addModel_rejects_nonpositive:
  "(w \<le> 0 \<longrightarrow> addModel model w e = (Some (RuntimeCheck ''Weights must be positive''), e))
   \<and> (0 < w \<longrightarrow> addModel model w e
         = (None, e\<lparr>m_models := m_models e @ [model], m_weight := m_weight e @ [w],
                     m_weightSum := m_weightSum e + w\<rparr>))"
  by (simp add: addModel_def)

theorem addModel_rejects_nonpositive_witness:
  "(let e = snd (addModel (class_model 0) 2 (MeanModel 3))
    in (- 1 :: real) \<le> 0
       \<and> addModel (class_model 1) (- 1) e = (Some (RuntimeCheck ''Weights must be positive''), e)
       \<and> (0 :: real) \<le> 0
       \<and> addModel (class_model 1) 0 e = (Some (RuntimeCheck ''Weights must be positive''), e)
       \<and> (0 :: real) < 5
       \<and> addModel (class_model 1) 5 e
         = (None, \<lparr>m_models = [class_model 0, class_model 1], m_weight = [2, 5],
                   m_weightSum = 7, m_outputDim = 3\<rparr>))"
  using addModel_rejects_nonpositive
      [where w = "- 1" and model = "class_model 1"
         and e = "snd (addModel (class_model 0) 2 (MeanModel 3))"]
    addModel_rejects_nonpositive
      [where w = 0 and model = "class_model 1"
         and e = "snd (addModel (class_model 0) 2 (MeanModel 3))"]
    addModel_rejects_nonpositive
      [where w = 5 and model = "class_model 1"
         and e = "snd (addModel (class_model 0) 2 (MeanModel 3))"]
  by (simp add: Let_def addModel_def MeanModel_def)

text \<open>
  Claim C10. Without sub-models \<^verbatim>\<open>inputShape()\<close> and \<^verbatim>\<open>outputShape()\<close> return the empty
  shape; otherwise they return the shapes of the first sub-model. \<^verbatim>\<open>setOutputSize\<close>
  changes \<^verbatim>\<open>outputSize()\<close> and neither of the shapes, so \<^verbatim>\<open>outputShape()\<close> does not depend
  on the declared output size.
\<close>

theorem shapes_of_first_model:
  "(m_models e = [] \<longrightarrow> inputShape e = [] \<and> outputShape e = [])
   \<and> (\<forall>m ms. m_models e = m # ms \<longrightarrow>
         inputShape e = model_inputShape m \<and> outputShape e = model_outputShape m)
   \<and> outputShape (snd (setOutputSize d e)) = outputShape e
   \<and> inputShape (snd (setOutputSize d e)) = inputShape e
   \<and> outputSize (snd (setOutputSize d e)) = d"
  by (simp add: inputShape_def outputShape_def setOutputSize_def outputSize_def)

theorem shapes_of_first_model_witness:
  "(let e0 = (MeanModel 7 :: (real, RealMatrix) MeanModel);
        e = snd (addModel (affine_model 3) 2 (snd (addModel (affine_model 1) 1 e0)))
    in m_models e0 = [] \<and> inputShape e0 = [] \<and> outputShape e0 = []
       \<and> m_models e = affine_model 1 # [affine_model 3]
       \<and> inputShape e = [1] \<and> outputShape e = [2]
       \<and> outputShape (snd (setOutputSize 5 e)) = [2]
       \<and> outputSize (snd (setOutputSize 5 e)) = 5)"
  using shapes_of_first_model [where e = "MeanModel 7 :: (real, RealMatrix) MeanModel" and d = 5]
    shapes_of_first_model
      [where e = "snd (addModel (affine_model 3) 2 (snd (addModel (affine_model 1) 1
                    (MeanModel 7))))" and d = 5]
  by (simp add: Let_def addModel_def MeanModel_def affine_model_def inputShape_def
      outputShape_def setOutputSize_def outputSize_def)

subsection \<open>The objective function\<close>

text \<open>
  Claim C3. For a parameter vector of length \<^verbatim>\<open>numberOfVariables()\<close>, \<^verbatim>\<open>evalDerivative\<close>
  returns the scalar error that \<^verbatim>\<open>eval\<close> returns (on the same random draw, where
  minibatches are used).
\<close>

theorem evalDerivative_returns_eval:
  "length p = numberOfVariables f \<longrightarrow>
     (\<exists>v g. evalDerivative f draw p = Inr (v, g) \<and> eval f draw p = Inr v)"
  by (simp add: evalDerivative_def eval_def split: option.splits)

theorem evalDerivative_returns_eval_witness:
  "(let f = setRegularizer (- 2) (Some sum_objective) squares_error
    in length [1, 3 :: real] = numberOfVariables f
       \<and> evalDerivative f 0 [1, 3] = Inr (2, [0, 4])
       \<and> eval f 0 [1, 3] = Inr 2)"
  using evalDerivative_returns_eval
    [where p = "[1, 3]" and f = "setRegularizer (- 2) (Some sum_objective) squares_error"
       and draw = 0]
  by (simp add: Let_def setRegularizer_def squares_error_def squares_wrapper_def
      sum_objective_def numberOfVariables_def eval_def evalDerivative_def)

text \<open>
  Claim C4. After \<^verbatim>\<open>setRegularizer(c, R)\<close>, \<^verbatim>\<open>eval\<close> returns the base error plus \<open>c\<close>
  times the value of \<open>R\<close>, and the gradient of \<^verbatim>\<open>evalDerivative\<close> is the base gradient
  plus \<open>c\<close> times the gradient of \<open>R\<close>, for every real factor \<open>c\<close>: \<^verbatim>\<open>setRegularizer\<close>
  stores any factor and rejects none.
\<close>

theorem regularized_error:
  "m_regularizationStrength (setRegularizer c (Some R) f) = c
   \<and> m_regularizer (setRegularizer c (Some R) f) = Some R
   \<and> (length p = numberOfVariables f \<longrightarrow>
        eval (setRegularizer c (Some R) f) draw p
          = Inr (baseError f draw p + c * objective_eval R p)
        \<and> evalDerivative (setRegularizer c (Some R) f) draw p
          = Inr (baseError f draw p + c * objective_eval R p,
                 map2 (+) (baseGradient f draw p)
                   (map (\<lambda>g. c * g) (objective_gradient R p))))"
  by (simp add: evalDerivative_def eval_def setRegularizer_def numberOfVariables_def
      baseError_def baseGradient_def)

theorem regularized_error_witness:
  "length [1, 3 :: real] = numberOfVariables squares_error
   \<and> baseError squares_error 0 [1, 3] = 10
   \<and> objective_eval sum_objective [1, 3] = 4
   \<and> eval (setRegularizer (- 2) (Some sum_objective) squares_error) 0 [1, 3] = Inr 2
   \<and> evalDerivative (setRegularizer (- 2) (Some sum_objective) squares_error) 0 [1, 3]
     = Inr (2, [0, 4])
   \<and> eval (setRegularizer 0 (Some sum_objective) squares_error) 0 [1, 3] = Inr 10"
  using regularized_error
      [where p = "[1, 3]" and f = squares_error and c = "- 2" and R = sum_objective
         and draw = 0]
    regularized_error
      [where p = "[1, 3]" and f = squares_error and c = 0 and R = sum_objective and draw = 0]
  by (simp add: squares_error_def squares_wrapper_def sum_objective_def
      numberOfVariables_def baseError_def baseGradient_def)

end
